theory Spec2Isabelle
  imports Main "HOL-Library.Word"
begin

section \<open>Data model of SDL\_gpu\_webxr.c\<close>

text \<open>
  The C enums are kept as the integers they are in the source: the code compares a mode
  against \<open>0\<close> and \<open>3\<close>, and casts the environment's \<open>int\<close> answer to a session state.
\<close>

type_synonym SDL_WebXRSessionMode = int
type_synonym SDL_WebXRReferenceSpaceType = int
type_synonym SDL_WebXRSessionState = int

abbreviation (input) SDL_WEBXR_SESSION_INLINE :: SDL_WebXRSessionMode where
  "SDL_WEBXR_SESSION_INLINE \<equiv> 0"
abbreviation (input) SDL_WEBXR_SESSION_IMMERSIVE_VR :: SDL_WebXRSessionMode where
  "SDL_WEBXR_SESSION_IMMERSIVE_VR \<equiv> 1"
abbreviation (input) SDL_WEBXR_SESSION_IMMERSIVE_AR :: SDL_WebXRSessionMode where
  "SDL_WEBXR_SESSION_IMMERSIVE_AR \<equiv> 2"

abbreviation (input) SDL_WEBXR_REFSPACE_VIEWER :: SDL_WebXRReferenceSpaceType where
  "SDL_WEBXR_REFSPACE_VIEWER \<equiv> 0"
abbreviation (input) SDL_WEBXR_REFSPACE_LOCAL :: SDL_WebXRReferenceSpaceType where
  "SDL_WEBXR_REFSPACE_LOCAL \<equiv> 1"
abbreviation (input) SDL_WEBXR_REFSPACE_LOCAL_FLOOR :: SDL_WebXRReferenceSpaceType where
  "SDL_WEBXR_REFSPACE_LOCAL_FLOOR \<equiv> 2"
abbreviation (input) SDL_WEBXR_REFSPACE_BOUNDED_FLOOR :: SDL_WebXRReferenceSpaceType where
  "SDL_WEBXR_REFSPACE_BOUNDED_FLOOR \<equiv> 3"
abbreviation (input) SDL_WEBXR_REFSPACE_UNBOUNDED :: SDL_WebXRReferenceSpaceType where
  "SDL_WEBXR_REFSPACE_UNBOUNDED \<equiv> 4"

abbreviation (input) SDL_WEBXR_STATE_IDLE :: SDL_WebXRSessionState where
  "SDL_WEBXR_STATE_IDLE \<equiv> 0"
abbreviation (input) SDL_WEBXR_STATE_REQUESTING :: SDL_WebXRSessionState where
  "SDL_WEBXR_STATE_REQUESTING \<equiv> 1"
abbreviation (input) SDL_WEBXR_STATE_READY :: SDL_WebXRSessionState where
  "SDL_WEBXR_STATE_READY \<equiv> 2"
abbreviation (input) SDL_WEBXR_STATE_RUNNING :: SDL_WebXRSessionState where
  "SDL_WEBXR_STATE_RUNNING \<equiv> 3"
abbreviation (input) SDL_WEBXR_STATE_VISIBLE :: SDL_WebXRSessionState where
  "SDL_WEBXR_STATE_VISIBLE \<equiv> 4"
abbreviation (input) SDL_WEBXR_STATE_VISIBLE_BLURRED :: SDL_WebXRSessionState where
  "SDL_WEBXR_STATE_VISIBLE_BLURRED \<equiv> 5"
abbreviation (input) SDL_WEBXR_STATE_ENDED :: SDL_WebXRSessionState where
  "SDL_WEBXR_STATE_ENDED \<equiv> 6"

text \<open>
  \<open>float\<close> and \<open>double\<close> values are only moved around and zero-filled, never computed
  with, so they are carried as their bit patterns; \<open>0\<close> is \<open>+0.0\<close>, what \<open>memset\<close> leaves.
\<close>

type_synonym float32 = "32 word"
type_synonym float64 = "64 word"

abbreviation NUL :: char where
  "NUL \<equiv> CHR 0x00"

text \<open>\<open>struct SDL_WebXRSession\<close>; \<open>refSpaceTypeString\<close> is the content of the \<open>char[32]\<close>.\<close>

record SDL_WebXRSession =
  mode :: SDL_WebXRSessionMode
  refSpaceType :: SDL_WebXRReferenceSpaceType
  state :: SDL_WebXRSessionState
  refSpaceTypeString :: string
  initialized :: bool

record SDL_WebXRView =
  projectionMatrix :: "float32 list"
  viewMatrix :: "float32 list"
  viewportX :: int
  viewportY :: int
  viewportWidth :: int
  viewportHeight :: int

record SDL_WebXRFrame =
  predictedDisplayTime :: float64
  viewCount :: int
  views :: "SDL_WebXRView list"

text \<open>
  A pointer is an address or \<open>NULL\<close> (\<open>None\<close>). Session objects live in a heap from
  addresses to their contents; an address outside the heap's domain is not allocated
  (never was, or was freed).
\<close>

type_synonym addr = nat
type_synonym session_ptr = "addr option"

text \<open>
  The calls into the JavaScript library that change something on its side are logged in
  order. Its queries are not logged: their answers are read from the environment.
\<close>

datatype env_call =
    Call_is_session_supported int
  | Call_initialize int int
  | Call_uninitialize

text \<open>
  The statics of the file (\<open>g_session\<close>, \<open>g_mode_supported\<close>), the heap, SDL's last-error
  message, and the log of calls sent to the environment.
\<close>

record world =
  g_session :: session_ptr
  g_mode_supported :: "int list"
  heap :: "addr \<Rightarrow> SDL_WebXRSession option"
  last_error :: string
  env_calls :: "env_call list"

text \<open>
  The JavaScript library (\<open>library_sdl_webxr.js\<close>) and the allocator are not part of the
  file: what they answer is a parameter of every operation. A getter that fills a
  buffer receives the buffer's content and gives back its return code with the content
  it left there; the viewport getter is always handed a zeroed \<open>int[4]\<close>, so it is
  given as the four integers it leaves. \<open>calloc_result\<close> is what \<open>SDL_calloc\<close> returns
  (\<open>None\<close> when the allocation fails).
\<close>

record environment =
  sdl_webxr_is_supported :: int
  sdl_webxr_get_session_state :: int
  sdl_webxr_get_view_count :: int
  sdl_webxr_get_projection_for_view :: "int \<Rightarrow> float32 list \<Rightarrow> int \<times> float32 list"
  sdl_webxr_get_transform_for_view :: "int \<Rightarrow> float32 list \<Rightarrow> int \<times> float32 list"
  sdl_webxr_get_viewport_for_view :: "int \<Rightarrow> int \<times> (int \<times> int \<times> int \<times> int)"
  calloc_result :: session_ptr

text \<open>
  Undefined behaviour of the C program is an explicit outcome: reading or writing
  through a pointer that is not allocated, and freeing one.
\<close>

datatype fault = InvalidAccess | InvalidFree

text \<open>The state of the module when the program starts.\<close>

definition initial_world :: world where
  "initial_world =
     \<lparr>g_session = None, g_mode_supported = [-1, -1, -1], heap = (\<lambda>_. None),
      last_error = [], env_calls = []\<rparr>"

section \<open>Helpers of SDL that the file calls\<close>

text \<open>
  Modelled from the spec: \<open>SDL_SetError\<close> (SDL's error module is not under src/) is the
  "out-of-band last-error message"; the formatted text replaces the previous message.
\<close>

definition SDL_SetError :: "string \<Rightarrow> world \<Rightarrow> world" where
  "SDL_SetError msg w = w\<lparr>last_error := msg\<rparr>"

text \<open>
  Modelled from the spec: \<open>SDL_calloc(1, sizeof(SDL_WebXRSession))\<close> (SDL's allocator is
  not under src/) gives a zero-filled session: every enum is \<open>0\<close>, the string buffer is
  32 NUL bytes, the flag is false.
\<close>

definition zeroed_session :: SDL_WebXRSession where
  "zeroed_session =
     \<lparr>mode = 0, refSpaceType = 0, state = 0,
      refSpaceTypeString = replicate 32 NUL, initialized = False\<rparr>"

text \<open>
  Modelled from the spec: \<open>SDL_free\<close> (not under src/) "releases the session's memory";
  freeing an address that is not allocated is a double free.
\<close>

definition SDL_free :: "addr \<Rightarrow> world \<Rightarrow> fault + world" where
  "SDL_free p w =
     (case heap w p of
        None \<Rightarrow> Inl InvalidFree
      | Some _ \<Rightarrow> Inr (w\<lparr>heap := (heap w)(p := None)\<rparr>))"

text \<open>
  Modelled from the spec: \<open>SDL_strlcpy(dst, src, maxlen)\<close> (SDL's string functions are
  not under src/) stores a string of "capped length", "truncated, not overflowed": at
  most \<open>maxlen - 1\<close> bytes of \<open>src\<close> and a terminating NUL; the bytes of \<open>dst\<close> behind
  the terminator stay. \<open>src\<close> is the C string without its terminator.
\<close>

definition SDL_strlcpy :: "string \<Rightarrow> string \<Rightarrow> nat \<Rightarrow> string" where
  "SDL_strlcpy dst src maxlen =
     (if maxlen > 0
      then (let len = min (length src) (maxlen - 1)
            in take len src @ [NUL] @ drop (len + 1) dst)
      else dst)"

text \<open>The C string held by a buffer: the bytes before the first NUL.\<close>

definition c_string :: "string \<Rightarrow> string" where
  "c_string buf = takeWhile (\<lambda>c. c \<noteq> NUL) buf"

section \<open>Session state machine\<close>

definition SDL_WebXR_IsAvailable :: "environment \<Rightarrow> bool" where
  "SDL_WebXR_IsAvailable env = (sdl_webxr_is_supported env \<noteq> 0)"

text \<open>
  \<open>sdl_webxr_initialize\<close> hands the four callbacks to the environment and returns;
  the callbacks are later calls of their own (the functions \<open>webxr_on_...\<close> below).
\<close>

definition SDL_WebXR_RequestSession ::
  "environment \<Rightarrow> SDL_WebXRSessionMode \<Rightarrow> SDL_WebXRReferenceSpaceType \<Rightarrow> world
     \<Rightarrow> session_ptr \<times> world" where
  "SDL_WebXR_RequestSession env md rst w =
     (if \<not> SDL_WebXR_IsAvailable env
      then (None, SDL_SetError ''WebXR is not available'' w)
      else if g_session w \<noteq> None
      then (None, SDL_SetError ''WebXR session already active'' w)
      else (case calloc_result env of
              None \<Rightarrow> (None, w\<lparr>g_session := None\<rparr>)
            | Some p \<Rightarrow>
                (Some p,
                 w\<lparr>g_session := Some p,
                   heap := (heap w)(p \<mapsto>
                     zeroed_session\<lparr>mode := md, refSpaceType := rst,
                       state := SDL_WEBXR_STATE_REQUESTING, initialized := False\<rparr>),
                   env_calls := env_calls w @ [Call_initialize md rst]\<rparr>)))"

text \<open>
  The callbacks the environment invokes between two calls of the host loop. A \<open>const
  char *\<close> argument is \<open>None\<close> for \<open>NULL\<close>, else the C string it points to.
\<close>

definition webxr_on_session_started :: "string option \<Rightarrow> world \<Rightarrow> fault + world" where
  "webxr_on_session_started refSpaceTypeArg w =
     (case g_session w of
        None \<Rightarrow> Inr w
      | Some p \<Rightarrow>
          (case heap w p of
             None \<Rightarrow> Inl InvalidAccess
           | Some s \<Rightarrow>
               (let s1 = (case refSpaceTypeArg of
                            None \<Rightarrow> s
                          | Some str \<Rightarrow>
                              s\<lparr>refSpaceTypeString :=
                                  SDL_strlcpy (refSpaceTypeString s) str 32\<rparr>)
                in Inr (w\<lparr>heap := (heap w)(p \<mapsto>
                          s1\<lparr>state := SDL_WEBXR_STATE_RUNNING, initialized := True\<rparr>)\<rparr>))))"

definition webxr_on_session_ended :: "world \<Rightarrow> fault + world" where
  "webxr_on_session_ended w =
     (case g_session w of
        None \<Rightarrow> Inr w
      | Some p \<Rightarrow>
          (case heap w p of
             None \<Rightarrow> Inl InvalidAccess
           | Some s \<Rightarrow>
               Inr (w\<lparr>heap := (heap w)(p \<mapsto>
                      s\<lparr>state := SDL_WEBXR_STATE_ENDED, initialized := False\<rparr>)\<rparr>)))"

definition webxr_on_session_failed :: "string option \<Rightarrow> world \<Rightarrow> fault + world" where
  "webxr_on_session_failed message w =
     (case g_session w of
        None \<Rightarrow> Inr w
      | Some p \<Rightarrow>
          (case heap w p of
             None \<Rightarrow> Inl InvalidAccess
           | Some s \<Rightarrow>
               (let w1 = w\<lparr>heap := (heap w)(p \<mapsto>
                              s\<lparr>state := SDL_WEBXR_STATE_IDLE, initialized := False\<rparr>)\<rparr>
                in (case message of
                      None \<Rightarrow> Inr w1
                    | Some m \<Rightarrow> Inr (SDL_SetError (''WebXR session failed: '' @ m) w1)))))"

definition webxr_on_frame :: "world \<Rightarrow> world" where
  "webxr_on_frame w = w"

subsection \<open>Mode-support cache\<close>

definition mode_supported_callback :: "int \<Rightarrow> int \<Rightarrow> world \<Rightarrow> world" where
  "mode_supported_callback md supported w =
     (if md \<ge> 0 \<and> md < 3
      then w\<lparr>g_mode_supported := (g_mode_supported w)[nat md := supported]\<rparr>
      else w)"

definition SDL_WebXR_IsSessionModeSupported ::
  "environment \<Rightarrow> SDL_WebXRSessionMode \<Rightarrow> world \<Rightarrow> bool \<times> world" where
  "SDL_WebXR_IsSessionModeSupported env md w =
     (if \<not> SDL_WebXR_IsAvailable env then (False, w)
      else if md \<ge> 0 \<and> md < 3 \<and> g_mode_supported w ! nat md \<ge> 0
      then (g_mode_supported w ! nat md \<noteq> 0, w)
      else (md = SDL_WEBXR_SESSION_IMMERSIVE_VR,
            w\<lparr>env_calls := env_calls w @ [Call_is_session_supported md]\<rparr>))"

subsection \<open>State query and teardown\<close>

text \<open>
  The cast \<open>(SDL_WebXRSessionState)v\<close> of a C \<open>int\<close>. The enum has no negative
  enumerator, so under clang (the file is compiled for Emscripten only) its values are
  \<open>unsigned int\<close>: a negative \<open>int\<close> wraps around by \<open>2 ^ 32\<close>, any other keeps its
  value. Integers outside the range of \<open>int\<close> are no answers of the environment.
\<close>

definition SessionState_of_int :: "int \<Rightarrow> SDL_WebXRSessionState" where
  "SessionState_of_int v = (if - 2147483648 \<le> v \<and> v < 0 then v + 4294967296 else v)"

definition SDL_WebXR_GetSessionState ::
  "environment \<Rightarrow> session_ptr \<Rightarrow> world \<Rightarrow> fault + (SDL_WebXRSessionState \<times> world)" where
  "SDL_WebXR_GetSessionState env session w =
     (case session of
        None \<Rightarrow> Inr (SDL_WEBXR_STATE_IDLE, w)
      | Some p \<Rightarrow>
          (case heap w p of
             None \<Rightarrow> Inl InvalidAccess
           | Some s \<Rightarrow>
               (let st = SessionState_of_int (sdl_webxr_get_session_state env)
                in Inr (st, w\<lparr>heap := (heap w)(p \<mapsto> s\<lparr>state := st\<rparr>)\<rparr>))))"

definition SDL_WebXR_EndSession :: "session_ptr \<Rightarrow> world \<Rightarrow> fault + world" where
  "SDL_WebXR_EndSession session w =
     (case session of
        None \<Rightarrow> Inr w
      | Some p \<Rightarrow>
          (let w1 = w\<lparr>env_calls := env_calls w @ [Call_uninitialize]\<rparr>;
               w2 = (if g_session w1 = session then w1\<lparr>g_session := None\<rparr> else w1)
           in SDL_free p w2))"

section \<open>Frame and view marshaller\<close>

text \<open>\<open>SDL_memset(m, 0, sizeof(m))\<close> on a \<open>float[16]\<close>.\<close>

definition zero_matrix :: "float32 list" where
  "zero_matrix = replicate 16 0"

text \<open>The body of the loop over the views, for view index \<open>i\<close>.\<close>

definition fetch_view :: "environment \<Rightarrow> int \<Rightarrow> SDL_WebXRFrame \<Rightarrow> SDL_WebXRFrame" where
  "fetch_view env i f =
     (let view = views f ! nat i;
          (okp, proj) = sdl_webxr_get_projection_for_view env i (projectionMatrix view);
          view1 = view\<lparr>projectionMatrix := (if okp = 0 then zero_matrix else proj)\<rparr>;
          (okv, vmat) = sdl_webxr_get_transform_for_view env i (viewMatrix view1);
          view2 = view1\<lparr>viewMatrix := (if okv = 0 then zero_matrix else vmat)\<rparr>;
          (okr, (x, y, wd, ht)) = sdl_webxr_get_viewport_for_view env i;
          view3 = (if okr \<noteq> 0
                   then view2\<lparr>viewportX := x, viewportY := y,
                              viewportWidth := wd, viewportHeight := ht\<rparr>
                   else view2\<lparr>viewportX := 0, viewportY := 0,
                              viewportWidth := 0, viewportHeight := 0\<rparr>)
      in f\<lparr>views := (views f)[nat i := view3]\<rparr>)"

text \<open>\<open>for (int i = 0; i < frame->viewCount; i++)\<close>, entered at \<open>i\<close>.\<close>

function view_loop :: "environment \<Rightarrow> int \<Rightarrow> SDL_WebXRFrame \<Rightarrow> SDL_WebXRFrame" where
  "view_loop env i f =
     (if i < viewCount f then view_loop env (i + 1) (fetch_view env i f) else f)"
  by pat_completeness auto
termination
  by (relation "measure (\<lambda>(env, i, f). nat (viewCount f - i))")
     (auto simp: fetch_view_def Let_def split: prod.splits)

declare view_loop.simps [simp del]

definition SDL_WebXR_BeginFrame ::
  "environment \<Rightarrow> session_ptr \<Rightarrow> SDL_WebXRFrame option \<Rightarrow> world
     \<Rightarrow> fault + (bool \<times> SDL_WebXRFrame option \<times> world)" where
  "SDL_WebXR_BeginFrame env session frame w =
     (case (session, frame) of
        (None, _) \<Rightarrow> Inr (False, frame, w)
      | (Some p, None) \<Rightarrow> Inr (False, frame, w)
      | (Some p, Some f) \<Rightarrow>
          (case SDL_WebXR_GetSessionState env session w of
             Inl e \<Rightarrow> Inl e
           | Inr (st, w1) \<Rightarrow>
               if st \<noteq> SDL_WEBXR_STATE_RUNNING \<and> st \<noteq> SDL_WEBXR_STATE_VISIBLE
                  \<and> st \<noteq> SDL_WEBXR_STATE_VISIBLE_BLURRED
               then Inr (False, Some f, w1)
               else
                 (let f1 = f\<lparr>viewCount := sdl_webxr_get_view_count env\<rparr>
                  in if viewCount f1 \<le> 0 then Inr (False, Some f1, w1)
                     else
                       (let f2 = (if viewCount f1 > 2 then f1\<lparr>viewCount := 2\<rparr> else f1);
                            f3 = view_loop env 0 f2
                        in Inr (True, Some (f3\<lparr>predictedDisplayTime := 0\<rparr>), w1)))))"

section \<open>The remaining operations and the life of the process\<close>

text \<open>A device handle is an address or \<open>NULL\<close>; nothing of the device is read.\<close>

definition SDL_WebXR_BindGPUDevice :: "session_ptr \<Rightarrow> addr option \<Rightarrow> world \<Rightarrow> bool \<times> world" where
  "SDL_WebXR_BindGPUDevice session device w =
     (if session = None \<or> device = None
      then (False, SDL_SetError ''Invalid session or device'' w)
      else (True, w))"

definition SDL_WebXR_EndFrame :: "session_ptr \<Rightarrow> world \<Rightarrow> world" where
  "SDL_WebXR_EndFrame session w = w"

text \<open>
  What can happen to the module's state during a run of the process: a call of one of
  its functions by the host loop, with the environment as it answers during that call,
  or a callback delivered by the environment. The accessors \<open>SDL_WebXR_GetViewCount\<close>,
  \<open>GetRenderTargetSize\<close>, \<open>GetHeadTransform\<close>, \<open>GetFramebuffer\<close> and the two
  texture getters only hand on what the environment answers and touch none of the
  state, so they are no events.
\<close>

datatype event =
    Ev_IsSessionModeSupported environment SDL_WebXRSessionMode
  | Ev_RequestSession environment SDL_WebXRSessionMode SDL_WebXRReferenceSpaceType
  | Ev_GetSessionState environment session_ptr
  | Ev_EndSession session_ptr
  | Ev_BindGPUDevice session_ptr "addr option"
  | Ev_BeginFrame environment session_ptr "SDL_WebXRFrame option"
  | Ev_EndFrame session_ptr
  | Ev_session_started "string option"
  | Ev_session_ended
  | Ev_session_failed "string option"
  | Ev_frame
  | Ev_mode_supported int int

text \<open>One event, with the value returned to the caller dropped.\<close>

fun step :: "event \<Rightarrow> world \<Rightarrow> fault + world" where
  "step (Ev_IsSessionModeSupported env md) w =
     Inr (snd (SDL_WebXR_IsSessionModeSupported env md w))"
| "step (Ev_RequestSession env md rst) w =
     Inr (snd (SDL_WebXR_RequestSession env md rst w))"
| "step (Ev_GetSessionState env session) w =
     map_sum id snd (SDL_WebXR_GetSessionState env session w)"
| "step (Ev_EndSession session) w = SDL_WebXR_EndSession session w"
| "step (Ev_BindGPUDevice session device) w =
     Inr (snd (SDL_WebXR_BindGPUDevice session device w))"
| "step (Ev_BeginFrame env session frame) w =
     map_sum id (\<lambda>r. snd (snd r)) (SDL_WebXR_BeginFrame env session frame w)"
| "step (Ev_EndFrame session) w = Inr (SDL_WebXR_EndFrame session w)"
| "step (Ev_session_started refSpaceTypeArg) w = webxr_on_session_started refSpaceTypeArg w"
| "step Ev_session_ended w = webxr_on_session_ended w"
| "step (Ev_session_failed message) w = webxr_on_session_failed message w"
| "step Ev_frame w = Inr (webxr_on_frame w)"
| "step (Ev_mode_supported md supported) w = Inr (mode_supported_callback md supported w)"

text \<open>A run of events; undefined behaviour ends it.\<close>

fun run :: "event list \<Rightarrow> world \<Rightarrow> fault + world" where
  "run [] w = Inr w"
| "run (ev # es) w = (case step ev w of Inl e \<Rightarrow> Inl e | Inr w' \<Rightarrow> run es w')"

text \<open>
  The answers for mode \<open>md\<close> that the environment delivers during a run, in order, and
  the number of probes for \<open>md\<close> sent to the environment so far.
\<close>

fun probe_answer :: "int \<Rightarrow> event \<Rightarrow> int option" where
  "probe_answer md (Ev_mode_supported m supported) = (if m = md then Some supported else None)"
| "probe_answer md _ = None"

fun probe_answers :: "int \<Rightarrow> event list \<Rightarrow> int list" where
  "probe_answers md [] = []"
| "probe_answers md (ev # es) =
     (case probe_answer md ev of
        None \<Rightarrow> probe_answers md es
      | Some supported \<Rightarrow> supported # probe_answers md es)"

definition probes_sent :: "int \<Rightarrow> world \<Rightarrow> nat" where
  "probes_sent md w = count_list (env_calls w) (Call_is_session_supported md)"

section \<open>Concrete environments and states\<close>

text \<open>
  An environment with XR support whose session is running in stereo; the projection
  fetch succeeds for view 0 only. The allocator hands out address 4096.
\<close>

definition example_env :: environment where
  "example_env =
     \<lparr>sdl_webxr_is_supported = 1,
      sdl_webxr_get_session_state = SDL_WEBXR_STATE_RUNNING,
      sdl_webxr_get_view_count = 2,
      sdl_webxr_get_projection_for_view =
        (\<lambda>i m. if i = 0 then (1, replicate 16 7) else (0, replicate 16 9)),
      sdl_webxr_get_transform_for_view = (\<lambda>i m. (1, replicate 16 5)),
      sdl_webxr_get_viewport_for_view = (\<lambda>i. (1, (i * 960, 0, 960, 1080))),
      calloc_result = Some 4096\<rparr>"

text \<open>The state after a first successful session request: one session, at address 4096.\<close>

definition example_world :: world where
  "example_world =
     snd (SDL_WebXR_RequestSession example_env SDL_WEBXR_SESSION_IMMERSIVE_VR
            SDL_WEBXR_REFSPACE_LOCAL_FLOOR initial_world)"

text \<open>A caller's frame buffer, zero-initialised.\<close>

definition example_frame :: SDL_WebXRFrame where
  "example_frame =
     \<lparr>predictedDisplayTime = 0, viewCount = 0,
      views = replicate 2
        \<lparr>projectionMatrix = replicate 16 0, viewMatrix = replicate 16 0,
         viewportX = 0, viewportY = 0, viewportWidth = 0, viewportHeight = 0\<rparr>\<rparr>"

text \<open>
  The state after that session has been ended once, and the state after the
  environment has confirmed its start with the string "local-floor".
\<close>

definition ended_world :: world where
  "ended_world =
     (case SDL_WebXR_EndSession (Some 4096) example_world of
        Inr w \<Rightarrow> w | Inl _ \<Rightarrow> example_world)"

definition started_world :: world where
  "started_world =
     (case webxr_on_session_started (Some ''local-floor'') example_world of
        Inr w \<Rightarrow> w | Inl _ \<Rightarrow> example_world)"

text \<open>
  Three starts of a process. In each the program asks whether immersive VR is supported
  (once, once, twice), which sends the probe, and the environment then answers
  "supported", \<open>-1\<close>, "supported". Then a later stretch of the process: a session is
  requested, confirmed and ended, both immersive modes are queried, the answer to the
  second probe for immersive VR and the answer for immersive AR arrive.
\<close>

definition probed_world :: world where
  "probed_world =
     (case run [Ev_IsSessionModeSupported example_env SDL_WEBXR_SESSION_IMMERSIVE_VR,
                Ev_mode_supported 1 1] initial_world of
        Inr w \<Rightarrow> w | Inl _ \<Rightarrow> initial_world)"

definition unknown_answer_world :: world where
  "unknown_answer_world =
     (case run [Ev_IsSessionModeSupported example_env SDL_WEBXR_SESSION_IMMERSIVE_VR,
                Ev_mode_supported 1 (- 1)] initial_world of
        Inr w \<Rightarrow> w | Inl _ \<Rightarrow> initial_world)"

definition two_probes_world :: world where
  "two_probes_world =
     (case run [Ev_IsSessionModeSupported example_env SDL_WEBXR_SESSION_IMMERSIVE_VR,
                Ev_IsSessionModeSupported example_env SDL_WEBXR_SESSION_IMMERSIVE_VR,
                Ev_mode_supported 1 1] initial_world of
        Inr w \<Rightarrow> w | Inl _ \<Rightarrow> initial_world)"

definition example_lifetime :: "event list" where
  "example_lifetime =
     [Ev_RequestSession example_env SDL_WEBXR_SESSION_IMMERSIVE_VR SDL_WEBXR_REFSPACE_LOCAL_FLOOR,
      Ev_IsSessionModeSupported example_env SDL_WEBXR_SESSION_IMMERSIVE_VR,
      Ev_IsSessionModeSupported example_env SDL_WEBXR_SESSION_IMMERSIVE_AR,
      Ev_mode_supported 2 0,
      Ev_mode_supported 1 1,
      Ev_session_started (Some ''local-floor''),
      Ev_GetSessionState example_env (Some 4096),
      Ev_IsSessionModeSupported (example_env\<lparr>sdl_webxr_is_supported := 0\<rparr>)
        SDL_WEBXR_SESSION_IMMERSIVE_VR,
      Ev_EndSession (Some 4096)]"

text \<open>
  An invariant of the module's state: the allocated sessions are exactly the one the
  slot points to, so at most one session exists and the slot never dangles.
\<close>

definition singleton_inv :: "world \<Rightarrow> bool" where
  "singleton_inv w = (\<forall>a. (heap w a \<noteq> None) = (g_session w = Some a))"

section \<open>Auxiliary facts\<close>

lemma example_world_eq:
  "example_world =
     \<lparr>g_session = Some 4096, g_mode_supported = [-1, -1, -1],
      heap = (\<lambda>_. None)(4096 \<mapsto> \<lparr>mode = 1, refSpaceType = 2, state = 1,
         refSpaceTypeString = replicate 32 NUL, initialized = False\<rparr>),
      last_error = [], env_calls = [Call_initialize 1 2]\<rparr>"
  by (simp add: example_world_def SDL_WebXR_RequestSession_def example_env_def
      SDL_WebXR_IsAvailable_def initial_world_def zeroed_session_def)

lemma example_world_live:
  "heap example_world 4096 = Some \<lparr>mode = 1, refSpaceType = 2, state = 1,
         refSpaceTypeString = replicate 32 NUL, initialized = False\<rparr>"
  by (simp add: example_world_eq)

lemma example_world_slot: "g_session example_world = Some 4096"
  by (simp add: example_world_eq)

lemma ended_world_eq:
  "SDL_WebXR_EndSession (Some 4096) example_world = Inr ended_world"
  by (simp add: ended_world_def example_world_eq SDL_WebXR_EndSession_def SDL_free_def Let_def)

subsection \<open>The loop over the views\<close>

lemma viewCount_fetch_view: "viewCount (fetch_view env i f) = viewCount f"
  by (simp add: fetch_view_def Let_def split: prod.splits)

lemma length_fetch_view: "length (views (fetch_view env i f)) = length (views f)"
  by (simp add: fetch_view_def Let_def split: prod.splits)

lemma view_loop_done: "\<not> i < viewCount f \<Longrightarrow> view_loop env i f = f"
  by (subst view_loop.simps) simp

lemma view_loop_step:
  "i < viewCount f \<Longrightarrow> view_loop env i f = view_loop env (i + 1) (fetch_view env i f)"
  by (subst view_loop.simps) simp

lemma view_loop_one: "viewCount f = 1 \<Longrightarrow> view_loop env 0 f = fetch_view env 0 f"
  by (simp add: view_loop_step view_loop_done viewCount_fetch_view)

lemma view_loop_two:
  "viewCount f = 2 \<Longrightarrow> view_loop env 0 f = fetch_view env 1 (fetch_view env 0 f)"
  by (simp add: view_loop_step view_loop_done viewCount_fetch_view)

lemma viewCount_view_loop: "viewCount (view_loop env i f) = viewCount f"
proof (induction env i f rule: view_loop.induct)
  case (1 env i f)
  show ?case
  proof (cases "i < viewCount f")
    case True
    with 1 show ?thesis by (simp add: view_loop_step viewCount_fetch_view)
  next
    case False
    then show ?thesis by (simp add: view_loop_done)
  qed
qed

text \<open>What one pass of the loop body leaves in the view it fills, and in the others.\<close>

lemma fetch_view_nth_same:
  "nat i < length (views f) \<Longrightarrow>
   views (fetch_view env i f) ! nat i =
     (let v = views f ! nat i;
          pr = sdl_webxr_get_projection_for_view env i (projectionMatrix v);
          tr = sdl_webxr_get_transform_for_view env i (viewMatrix v);
          vp = sdl_webxr_get_viewport_for_view env i
      in \<lparr>projectionMatrix = (if fst pr = 0 then replicate 16 0 else snd pr),
          viewMatrix = (if fst tr = 0 then replicate 16 0 else snd tr),
          viewportX = (if fst vp \<noteq> 0 then fst (snd vp) else 0),
          viewportY = (if fst vp \<noteq> 0 then fst (snd (snd vp)) else 0),
          viewportWidth = (if fst vp \<noteq> 0 then fst (snd (snd (snd vp))) else 0),
          viewportHeight = (if fst vp \<noteq> 0 then snd (snd (snd (snd vp))) else 0)\<rparr>)"
  by (simp add: fetch_view_def Let_def zero_matrix_def split: prod.splits)

lemma fetch_view_nth_other:
  "nat j \<noteq> nat i \<Longrightarrow> views (fetch_view env i f) ! nat j = views f ! nat j"
  by (simp add: fetch_view_def Let_def split: prod.splits)

subsection \<open>Calls on a live session\<close>

lemma SessionState_of_int_eq:
  "0 \<le> k \<Longrightarrow> k < 2147483648 \<Longrightarrow> (SessionState_of_int v = k) = (v = k)"
  by (auto simp add: SessionState_of_int_def)

lemma SessionState_of_int_nonneg: "0 \<le> v \<Longrightarrow> SessionState_of_int v = v"
  by (simp add: SessionState_of_int_def)

lemma get_state_live:
  "heap w p = Some s \<Longrightarrow>
   SDL_WebXR_GetSessionState env (Some p) w =
     Inr (SessionState_of_int (sdl_webxr_get_session_state env),
          w\<lparr>heap := (heap w)(p \<mapsto>
                 s\<lparr>state := SessionState_of_int (sdl_webxr_get_session_state env)\<rparr>)\<rparr>)"
  by (simp add: SDL_WebXR_GetSessionState_def Let_def)

lemma begin_frame_live:
  assumes "heap w p = Some s"
    and "sdl_webxr_get_session_state env = SDL_WEBXR_STATE_RUNNING
     \<or> sdl_webxr_get_session_state env = SDL_WEBXR_STATE_VISIBLE
     \<or> sdl_webxr_get_session_state env = SDL_WEBXR_STATE_VISIBLE_BLURRED"
  shows "SDL_WebXR_BeginFrame env (Some p) (Some f) w =
     (let w1 = w\<lparr>heap := (heap w)(p \<mapsto> s\<lparr>state := sdl_webxr_get_session_state env\<rparr>)\<rparr>;
          n = sdl_webxr_get_view_count env
      in if n \<le> 0 then Inr (False, Some (f\<lparr>viewCount := n\<rparr>), w1)
         else Inr (True,
                Some ((view_loop env 0 (f\<lparr>viewCount := min n 2\<rparr>))\<lparr>predictedDisplayTime := 0\<rparr>),
                w1))"
proof -
  from assms(2) have "SessionState_of_int (sdl_webxr_get_session_state env) =
      sdl_webxr_get_session_state env"
    by (auto simp add: SessionState_of_int_nonneg)
  with assms show ?thesis
    by (auto simp add: SDL_WebXR_BeginFrame_def get_state_live Let_def min_def)
qed

lemma begin_frame_bad_state:
  assumes "heap w p = Some s"
    and "sdl_webxr_get_session_state env \<noteq> SDL_WEBXR_STATE_RUNNING"
    and "sdl_webxr_get_session_state env \<noteq> SDL_WEBXR_STATE_VISIBLE"
    and "sdl_webxr_get_session_state env \<noteq> SDL_WEBXR_STATE_VISIBLE_BLURRED"
  shows "SDL_WebXR_BeginFrame env (Some p) (Some f) w =
     Inr (False, Some f,
          w\<lparr>heap := (heap w)(p \<mapsto>
                 s\<lparr>state := SessionState_of_int (sdl_webxr_get_session_state env)\<rparr>)\<rparr>)"
  using assms
  by (simp add: SDL_WebXR_BeginFrame_def get_state_live SessionState_of_int_eq)

lemma end_session_live:
  "heap w p = Some s \<Longrightarrow>
   SDL_WebXR_EndSession (Some p) w =
     Inr (w\<lparr>env_calls := env_calls w @ [Call_uninitialize],
            g_session := (if g_session w = Some p then None else g_session w),
            heap := (heap w)(p := None)\<rparr>)"
  by (simp add: SDL_WebXR_EndSession_def SDL_free_def Let_def)

lemma end_session_stale:
  "heap w p = None \<Longrightarrow> SDL_WebXR_EndSession (Some p) w = Inl InvalidFree"
  by (simp add: SDL_WebXR_EndSession_def SDL_free_def Let_def)

subsection \<open>The bounded string copy\<close>

lemma c_string_terminated: "NUL \<notin> set xs \<Longrightarrow> c_string (xs @ NUL # ys) = xs"
  by (induction xs) (auto simp add: c_string_def)

lemma strlcpy_32:
  assumes "length dst = 32"
  shows "length (SDL_strlcpy dst src 32) = 32"
    and "SDL_strlcpy dst src 32 ! min (length src) 31 = NUL"
    and "take (min (length src) 31) (SDL_strlcpy dst src 32) = take 31 src"
    and "NUL \<notin> set src \<Longrightarrow> c_string (SDL_strlcpy dst src 32) = take 31 src"
proof -
  let ?len = "min (length src) 31"
  have eq: "SDL_strlcpy dst src 32 = take ?len src @ NUL # drop (?len + 1) dst"
    by (simp add: SDL_strlcpy_def Let_def)
  have l: "length (take ?len src) = ?len" by simp
  show "length (SDL_strlcpy dst src 32) = 32" using assms unfolding eq by simp
  show "SDL_strlcpy dst src 32 ! min (length src) 31 = NUL"
    unfolding eq using l by (metis nth_append_length)
  show "take (min (length src) 31) (SDL_strlcpy dst src 32) = take 31 src"
    unfolding eq by (simp add: min_def)
  show "c_string (SDL_strlcpy dst src 32) = take 31 src" if "NUL \<notin> set src"
  proof -
    have "NUL \<notin> set (take ?len src)" using that by (auto dest: in_set_takeD)
    then have "c_string (SDL_strlcpy dst src 32) = take ?len src"
      unfolding eq by (rule c_string_terminated)
    then show ?thesis by (simp add: min_def)
  qed
qed

subsection \<open>The singleton invariant\<close>

text \<open>
  It holds initially and every operation that returns keeps it; under it no callback
  touches unallocated memory.
\<close>

lemma inv_initial: "singleton_inv initial_world"
  by (simp add: singleton_inv_def initial_world_def)

lemma inv_request:
  "singleton_inv w \<Longrightarrow> singleton_inv (snd (SDL_WebXR_RequestSession env md rst w))"
  by (auto simp add: singleton_inv_def SDL_WebXR_RequestSession_def SDL_SetError_def
      split: option.splits)

lemma inv_started:
  "singleton_inv w \<Longrightarrow> webxr_on_session_started a w = Inr w' \<Longrightarrow> singleton_inv w'"
  by (auto simp add: singleton_inv_def webxr_on_session_started_def Let_def
      split: option.splits)

lemma inv_ended:
  "singleton_inv w \<Longrightarrow> webxr_on_session_ended w = Inr w' \<Longrightarrow> singleton_inv w'"
  by (auto simp add: singleton_inv_def webxr_on_session_ended_def split: option.splits)

lemma inv_failed:
  "singleton_inv w \<Longrightarrow> webxr_on_session_failed a w = Inr w' \<Longrightarrow> singleton_inv w'"
  by (auto simp add: singleton_inv_def webxr_on_session_failed_def SDL_SetError_def Let_def
      split: option.splits)

lemma inv_get_state:
  "singleton_inv w \<Longrightarrow> SDL_WebXR_GetSessionState env sp w = Inr (st, w') \<Longrightarrow> singleton_inv w'"
  by (auto simp add: singleton_inv_def SDL_WebXR_GetSessionState_def Let_def
      split: option.splits) (metis option.distinct(1) option.inject)+

lemma inv_end_session:
  "singleton_inv w \<Longrightarrow> SDL_WebXR_EndSession sp w = Inr w' \<Longrightarrow> singleton_inv w'"
  by (auto simp add: singleton_inv_def SDL_WebXR_EndSession_def SDL_free_def Let_def
      split: option.splits if_splits) (metis option.distinct(1) option.inject)+

lemma inv_begin_frame:
  "singleton_inv w \<Longrightarrow> SDL_WebXR_BeginFrame env sp fr w = Inr (r, fr', w') \<Longrightarrow> singleton_inv w'"
  by (auto simp add: SDL_WebXR_BeginFrame_def Let_def
      split: option.splits sum.splits prod.splits if_splits dest: inv_get_state)

lemma inv_mode:
  "singleton_inv w \<Longrightarrow> singleton_inv (snd (SDL_WebXR_IsSessionModeSupported env md w))"
  "singleton_inv w \<Longrightarrow> singleton_inv (mode_supported_callback md a w)"
  by (auto simp add: singleton_inv_def SDL_WebXR_IsSessionModeSupported_def
      mode_supported_callback_def)

lemma inv_no_fault:
  assumes "singleton_inv w"
  shows "\<exists>w'. webxr_on_session_started a w = Inr w'"
    and "\<exists>w'. webxr_on_session_ended w = Inr w'"
    and "\<exists>w'. webxr_on_session_failed a w = Inr w'"
  using assms
  by (auto simp add: singleton_inv_def webxr_on_session_started_def webxr_on_session_ended_def
      webxr_on_session_failed_def Let_def split: option.splits)
     (metis option.distinct(1))+

subsection \<open>What each event does to the mode cache and to the probes sent\<close>

lemma cache_request: "g_mode_supported (snd (SDL_WebXR_RequestSession env md rst w)) = g_mode_supported w"
  by (simp add: SDL_WebXR_RequestSession_def SDL_SetError_def split: option.splits)

lemma probes_request: "probes_sent m (snd (SDL_WebXR_RequestSession env md rst w)) = probes_sent m w"
  by (simp add: SDL_WebXR_RequestSession_def SDL_SetError_def probes_sent_def split: option.splits)

lemma frame_get_state:
  "SDL_WebXR_GetSessionState env sp w = Inr (st, w') \<Longrightarrow>
   g_mode_supported w' = g_mode_supported w \<and> env_calls w' = env_calls w"
  by (auto simp add: SDL_WebXR_GetSessionState_def Let_def split: option.splits)

lemma frame_end_session:
  "SDL_WebXR_EndSession sp w = Inr w' \<Longrightarrow>
   g_mode_supported w' = g_mode_supported w \<and> probes_sent m w' = probes_sent m w"
  by (auto simp add: SDL_WebXR_EndSession_def SDL_free_def Let_def probes_sent_def
      split: option.splits if_splits)

lemma frame_bind:
  "g_mode_supported (snd (SDL_WebXR_BindGPUDevice sp d w)) = g_mode_supported w
   \<and> env_calls (snd (SDL_WebXR_BindGPUDevice sp d w)) = env_calls w"
  by (simp add: SDL_WebXR_BindGPUDevice_def SDL_SetError_def)

lemma frame_begin_frame:
  "SDL_WebXR_BeginFrame env sp fr w = Inr (r, fr', w') \<Longrightarrow>
   g_mode_supported w' = g_mode_supported w \<and> env_calls w' = env_calls w"
  by (auto simp add: SDL_WebXR_BeginFrame_def Let_def
      split: option.splits sum.splits prod.splits if_splits dest: frame_get_state)

lemma frame_started:
  "webxr_on_session_started a w = Inr w' \<Longrightarrow>
   g_mode_supported w' = g_mode_supported w \<and> env_calls w' = env_calls w"
  by (auto simp add: webxr_on_session_started_def Let_def split: option.splits)

lemma frame_ended:
  "webxr_on_session_ended w = Inr w' \<Longrightarrow>
   g_mode_supported w' = g_mode_supported w \<and> env_calls w' = env_calls w"
  by (auto simp add: webxr_on_session_ended_def split: option.splits)

lemma frame_failed:
  "webxr_on_session_failed a w = Inr w' \<Longrightarrow>
   g_mode_supported w' = g_mode_supported w \<and> env_calls w' = env_calls w"
  by (auto simp add: webxr_on_session_failed_def SDL_SetError_def Let_def split: option.splits)

lemma cache_is_supported:
  "g_mode_supported (snd (SDL_WebXR_IsSessionModeSupported env m w)) = g_mode_supported w"
  by (simp add: SDL_WebXR_IsSessionModeSupported_def)

lemma probes_is_supported:
  "probes_sent md (snd (SDL_WebXR_IsSessionModeSupported env m w)) =
     (if SDL_WebXR_IsAvailable env \<and> m = md
         \<and> \<not> (0 \<le> m \<and> m < 3 \<and> 0 \<le> g_mode_supported w ! nat m)
      then Suc (probes_sent md w) else probes_sent md w)"
  by (auto simp add: SDL_WebXR_IsSessionModeSupported_def probes_sent_def)

lemma step_cache:
  assumes "step ev w = Inr w'"
  shows "g_mode_supported w' =
     (case ev of
        Ev_mode_supported m a \<Rightarrow>
          (if 0 \<le> m \<and> m < 3 then (g_mode_supported w)[nat m := a] else g_mode_supported w)
      | _ \<Rightarrow> g_mode_supported w)"
proof (cases ev)
  case (Ev_GetSessionState env sp)
  with assms show ?thesis
    by (cases "SDL_WebXR_GetSessionState env sp w") (auto dest: frame_get_state)
next
  case (Ev_BeginFrame env sp fr)
  with assms show ?thesis
    by (cases "SDL_WebXR_BeginFrame env sp fr w") (auto dest: frame_begin_frame)
qed (use assms in \<open>auto simp add: cache_request cache_is_supported frame_bind
      SDL_WebXR_EndFrame_def webxr_on_frame_def mode_supported_callback_def
      dest: frame_end_session frame_started frame_ended frame_failed\<close>)

lemma step_probes:
  assumes "step ev w = Inr w'" and "0 \<le> md" and "md < 3"
    and "0 \<le> g_mode_supported w ! nat md"
  shows "probes_sent md w' = probes_sent md w"
proof (cases ev)
  case (Ev_GetSessionState env sp)
  with assms show ?thesis
    by (cases "SDL_WebXR_GetSessionState env sp w")
       (auto simp add: probes_sent_def dest: frame_get_state)
next
  case (Ev_BeginFrame env sp fr)
  with assms show ?thesis
    by (cases "SDL_WebXR_BeginFrame env sp fr w")
       (auto simp add: probes_sent_def dest: frame_begin_frame)
next
  case (Ev_EndSession sp)
  with assms show ?thesis by (auto dest: frame_end_session)
next
  case (Ev_session_started a)
  with assms show ?thesis by (auto simp add: probes_sent_def dest: frame_started)
next
  case Ev_session_ended
  with assms show ?thesis by (auto simp add: probes_sent_def dest: frame_ended)
next
  case (Ev_session_failed a)
  with assms show ?thesis by (auto simp add: probes_sent_def dest: frame_failed)
next
  case (Ev_IsSessionModeSupported env m)
  with assms show ?thesis by (auto simp add: probes_is_supported)
next
  case (Ev_RequestSession env m rst)
  with assms show ?thesis by (auto simp add: probes_request)
qed (use assms in \<open>auto simp add: frame_bind
      SDL_WebXR_EndFrame_def webxr_on_frame_def mode_supported_callback_def probes_sent_def\<close>)


lemma run_latch:
  assumes "0 \<le> md" and "md < 3"
  shows "run es w = Inr w' \<Longrightarrow> length (g_mode_supported w) = 3
     \<Longrightarrow> 0 \<le> g_mode_supported w ! nat md
     \<Longrightarrow> \<forall>a \<in> set (probe_answers md es). 0 \<le> a
     \<Longrightarrow> length (g_mode_supported w') = 3
       \<and> probes_sent md w' = probes_sent md w
       \<and> g_mode_supported w' ! nat md = last (g_mode_supported w ! nat md # probe_answers md es)"
proof (induction es arbitrary: w)
  case Nil
  then show ?case by simp
next
  case (Cons ev es)
  from Cons.prems(1) obtain w1 where s1: "step ev w = Inr w1" and r1: "run es w1 = Inr w'"
    by (auto split: sum.splits)
  have c1: "g_mode_supported w1 =
     (case ev of
        Ev_mode_supported m a \<Rightarrow>
          (if 0 \<le> m \<and> m < 3 then (g_mode_supported w)[nat m := a] else g_mode_supported w)
      | _ \<Rightarrow> g_mode_supported w)"
    using s1 by (rule step_cache)
  have p1: "probes_sent md w1 = probes_sent md w"
    using s1 assms Cons.prems(3) by (rule step_probes)
  have l1: "length (g_mode_supported w1) = 3"
    using c1 Cons.prems(2) by (auto split: event.splits)
  have ans: "probe_answers md (ev # es) =
      (case probe_answer md ev of None \<Rightarrow> probe_answers md es
       | Some a \<Rightarrow> a # probe_answers md es)"
    by simp
  have e1: "g_mode_supported w1 ! nat md =
      (case probe_answer md ev of None \<Rightarrow> g_mode_supported w ! nat md | Some a \<Rightarrow> a)"
    using c1 assms Cons.prems(2) by (cases ev) (auto simp add: nth_list_update)
  have n1: "0 \<le> g_mode_supported w1 ! nat md"
    using e1 ans Cons.prems(3,4) by (auto split: option.splits)
  have a1: "\<forall>a \<in> set (probe_answers md es). 0 \<le> a"
    using ans Cons.prems(4) by (auto split: option.splits)
  from Cons.IH [OF r1 l1 n1 a1] p1 e1 ans show ?case
    by (auto split: option.splits)
qed

lemma SessionState_of_int_minus_one: "SessionState_of_int (- 1) = 4294967295"
  by (simp add: SessionState_of_int_def)

subsection \<open>The example runs\<close>

lemma probed_world_eq:
  "probed_world = initial_world\<lparr>g_mode_supported := [-1, 1, -1],
      env_calls := [Call_is_session_supported 1]\<rparr>"
  by (simp add: probed_world_def SDL_WebXR_IsSessionModeSupported_def
      mode_supported_callback_def initial_world_def SDL_WebXR_IsAvailable_def example_env_def)

lemma probed_world_run:
  "run [Ev_IsSessionModeSupported example_env SDL_WEBXR_SESSION_IMMERSIVE_VR,
        Ev_mode_supported 1 1] initial_world = Inr probed_world"
  by (simp add: probed_world_def)

lemma two_probes_world_eq:
  "two_probes_world = initial_world\<lparr>g_mode_supported := [-1, 1, -1],
      env_calls := [Call_is_session_supported 1, Call_is_session_supported 1]\<rparr>"
  by (simp add: two_probes_world_def SDL_WebXR_IsSessionModeSupported_def
      mode_supported_callback_def initial_world_def SDL_WebXR_IsAvailable_def example_env_def)

lemma example_lifetime_run:
  "run example_lifetime two_probes_world =
     Inr (two_probes_world\<lparr>g_mode_supported := [-1, 1, 0],
            env_calls := [Call_is_session_supported 1, Call_is_session_supported 1,
                          Call_initialize 1 2, Call_is_session_supported 2,
                          Call_uninitialize]\<rparr>)"
  by (simp add: example_lifetime_def two_probes_world_eq initial_world_def
      SDL_WebXR_RequestSession_def SDL_WebXR_IsSessionModeSupported_def
      mode_supported_callback_def webxr_on_session_started_def
      SDL_WebXR_GetSessionState_def SDL_WebXR_EndSession_def SDL_free_def SDL_SetError_def
      SDL_WebXR_IsAvailable_def example_env_def zeroed_session_def Let_def
      SessionState_of_int_def)

section \<open>Session requests\<close>

text \<open>
  C3. A call to \<open>SDL_WebXR_RequestSession\<close> made while the singleton slot is empty, the
  environment reports XR support and the allocation succeeds returns the allocated,
  non-null handle; the session behind it is in state REQUESTING, carries the requested
  mode and reference-space type, and is not initialized. The slot holds the handle and
  the environment has been asked to start the session.
\<close>

theorem request_session_fresh:
  assumes "g_session w = None" and "SDL_WebXR_IsAvailable env"
    and "calloc_result env = Some p"
  shows "\<exists>w' s. SDL_WebXR_RequestSession env md rst w = (Some p, w')
           \<and> g_session w' = Some p \<and> heap w' p = Some s
           \<and> state s = SDL_WEBXR_STATE_REQUESTING \<and> mode s = md
           \<and> refSpaceType s = rst \<and> initialized s = False
           \<and> env_calls w' = env_calls w @ [Call_initialize md rst]"
  using assms by (simp add: SDL_WebXR_RequestSession_def)

text \<open>The first request of a program: immersive VR, local-floor, from the initial state.\<close>

theorem request_session_fresh_witness:
  "g_session initial_world = None \<and> SDL_WebXR_IsAvailable example_env
   \<and> calloc_result example_env = Some 4096
   \<and> (\<exists>w' s. SDL_WebXR_RequestSession example_env SDL_WEBXR_SESSION_IMMERSIVE_VR
                  SDL_WEBXR_REFSPACE_LOCAL_FLOOR initial_world = (Some 4096, w')
           \<and> g_session w' = Some 4096 \<and> heap w' 4096 = Some s
           \<and> state s = SDL_WEBXR_STATE_REQUESTING
           \<and> mode s = SDL_WEBXR_SESSION_IMMERSIVE_VR
           \<and> refSpaceType s = SDL_WEBXR_REFSPACE_LOCAL_FLOOR \<and> initialized s = False
           \<and> env_calls w' = env_calls initial_world @ [Call_initialize 1 2])"
proof -
  have a: "g_session initial_world = None" by (simp add: initial_world_def)
  have b: "SDL_WebXR_IsAvailable example_env"
    by (simp add: SDL_WebXR_IsAvailable_def example_env_def)
  have c: "calloc_result example_env = Some 4096" by (simp add: example_env_def)
  show ?thesis using a b c request_session_fresh [OF a b c, of 1 2] by simp
qed

text \<open>
  C1, as the code has it. A call to \<open>SDL_WebXR_RequestSession\<close> made while the singleton
  slot is occupied returns \<open>NULL\<close> and changes nothing but the last-error message: the
  slot, the heap (so every field of the existing session), the mode cache and the log of
  environment calls are as before. The message is "WebXR session already active" when
  the environment reports XR support; availability is tested first, so without XR
  support the message is "WebXR is not available".
\<close>

theorem request_session_while_active:
  assumes "g_session w = Some p"
  shows "SDL_WebXR_RequestSession env md rst w =
           (None, w\<lparr>last_error :=
                     (if SDL_WebXR_IsAvailable env then ''WebXR session already active''
                      else ''WebXR is not available'')\<rparr>)
         \<and> g_session (snd (SDL_WebXR_RequestSession env md rst w)) = Some p
         \<and> heap (snd (SDL_WebXR_RequestSession env md rst w)) p = heap w p"
  using assms by (simp add: SDL_WebXR_RequestSession_def SDL_SetError_def)

text \<open>A second request while the session at address 4096 exists.\<close>

theorem request_session_while_active_witness:
  "g_session example_world = Some 4096
   \<and> SDL_WebXR_RequestSession example_env SDL_WEBXR_SESSION_INLINE
        SDL_WEBXR_REFSPACE_VIEWER example_world =
        (None, example_world\<lparr>last_error := ''WebXR session already active''\<rparr>)
   \<and> heap (snd (SDL_WebXR_RequestSession example_env SDL_WEBXR_SESSION_INLINE
        SDL_WEBXR_REFSPACE_VIEWER example_world)) 4096 = heap example_world 4096"
  using request_session_while_active [OF example_world_slot, of example_env 0 0]
  by (simp add: example_world_slot SDL_WebXR_IsAvailable_def example_env_def)

text \<open>
  C1 as stated fails where a session exists and the environment reports no XR support:
  the call fails, but the error is not the already-active one.
\<close>

theorem request_session_while_active_counterexample:
  "g_session example_world \<noteq> None
   \<and> fst (SDL_WebXR_RequestSession (example_env\<lparr>sdl_webxr_is_supported := 0\<rparr>)
        SDL_WEBXR_SESSION_IMMERSIVE_VR SDL_WEBXR_REFSPACE_LOCAL_FLOOR example_world) = None
   \<and> last_error (snd (SDL_WebXR_RequestSession (example_env\<lparr>sdl_webxr_is_supported := 0\<rparr>)
        SDL_WEBXR_SESSION_IMMERSIVE_VR SDL_WEBXR_REFSPACE_LOCAL_FLOOR example_world))
       = ''WebXR is not available''
   \<and> ''WebXR is not available'' \<noteq> ''WebXR session already active''"
  by (simp add: example_world_eq SDL_WebXR_RequestSession_def example_env_def
      SDL_WebXR_IsAvailable_def SDL_SetError_def)

section \<open>Teardown\<close>

text \<open>
  C4, as the code has it. \<open>SDL_WebXR_EndSession\<close> does nothing on \<open>NULL\<close>. On a live
  session it tells the environment to uninitialize, clears the singleton slot exactly
  when the slot holds the argument, and releases the session's memory; the mode cache
  and the last error stay. Afterwards a call with \<open>NULL\<close> (the caller having nulled its
  reference) changes nothing, but the function itself has no guard against the stale
  handle: a second call with it frees the released memory again.
\<close>

theorem end_session_teardown:
  assumes "heap w p = Some s"
  shows "SDL_WebXR_EndSession None w = Inr w
    \<and> (\<exists>w'. SDL_WebXR_EndSession (Some p) w = Inr w'
          \<and> env_calls w' = env_calls w @ [Call_uninitialize]
          \<and> g_session w' = (if g_session w = Some p then None else g_session w)
          \<and> heap w' = (heap w)(p := None)
          \<and> g_mode_supported w' = g_mode_supported w \<and> last_error w' = last_error w
          \<and> SDL_WebXR_EndSession None w' = Inr w'
          \<and> SDL_WebXR_EndSession (Some p) w' = Inl InvalidFree)"
proof -
  let ?w' = "w\<lparr>env_calls := env_calls w @ [Call_uninitialize],
            g_session := (if g_session w = Some p then None else g_session w),
            heap := (heap w)(p := None)\<rparr>"
  have null: "\<And>v. SDL_WebXR_EndSession None v = Inr v"
    by (simp add: SDL_WebXR_EndSession_def)
  have first: "SDL_WebXR_EndSession (Some p) w = Inr ?w'"
    using assms by (rule end_session_live)
  have "heap ?w' p = None" by simp
  then have again: "SDL_WebXR_EndSession (Some p) ?w' = Inl InvalidFree"
    by (rule end_session_stale)
  show ?thesis using null first again by simp
qed

text \<open>Ending the session at address 4096: the slot is cleared, the memory released.\<close>

theorem end_session_teardown_witness:
  "heap example_world 4096 \<noteq> None
   \<and> SDL_WebXR_EndSession (Some 4096) example_world = Inr ended_world
   \<and> g_session ended_world = None \<and> heap ended_world 4096 = None
   \<and> env_calls ended_world = [Call_initialize 1 2, Call_uninitialize]
   \<and> SDL_WebXR_EndSession None ended_world = Inr ended_world"
  using end_session_teardown [OF example_world_live] ended_world_eq
  by (auto simp add: example_world_eq)

text \<open>
  C4 as stated fails on its last part: ending the same handle twice frees the session's
  memory twice.
\<close>

theorem end_session_twice_counterexample:
  "SDL_WebXR_EndSession (Some 4096) example_world = Inr ended_world
   \<and> SDL_WebXR_EndSession (Some 4096) ended_world = Inl InvalidFree"
  by (simp add: ended_world_def example_world_eq SDL_WebXR_EndSession_def SDL_free_def Let_def)

section \<open>Environment callbacks\<close>

text \<open>
  C7. When the environment's failure callback arrives with a message while a session
  exists, the callback returns normally; the session's state is IDLE, its initialized
  flag is false, and the last-error message is the callback's message behind the fixed
  prefix "WebXR session failed: ".
\<close>

theorem session_failed_callback:
  assumes "g_session w = Some p" and "heap w p = Some s"
  shows "\<exists>w' s'. webxr_on_session_failed (Some m) w = Inr w'
           \<and> heap w' p = Some s' \<and> state s' = SDL_WEBXR_STATE_IDLE
           \<and> initialized s' = False
           \<and> last_error w' = ''WebXR session failed: '' @ m"
  using assms by (simp add: webxr_on_session_failed_def SDL_SetError_def Let_def)

text \<open>The browser refuses the requested session with the message "denied".\<close>

theorem session_failed_callback_witness:
  "g_session example_world = Some 4096 \<and> heap example_world 4096 \<noteq> None
   \<and> (\<exists>w' s'. webxr_on_session_failed (Some ''denied'') example_world = Inr w'
           \<and> heap w' 4096 = Some s' \<and> state s' = SDL_WEBXR_STATE_IDLE
           \<and> initialized s' = False
           \<and> last_error w' = ''WebXR session failed: denied'')"
  using session_failed_callback [OF example_world_slot example_world_live, of "''denied''"]
  by (simp add: example_world_slot example_world_live)

text \<open>
  C8, as the code has it. When the environment's success callback arrives with a string
  while a session exists, the session's stored state is RUNNING and it is initialized.
  The 32-byte buffer keeps its size and holds the first 31 bytes of the string (all of
  it when it is shorter) followed by a NUL, so the stored C string is the string cut to
  31 bytes. \<open>SDL_WebXR_GetSessionState\<close> on that session then returns what the
  environment reports at that call, cast to the enum, whatever the callback stored:
  RUNNING exactly when the environment reports RUNNING.
\<close>

theorem session_started_callback:
  assumes "g_session w = Some p" and "heap w p = Some s"
    and "length (refSpaceTypeString s) = 32"
  shows "\<exists>w' s'. webxr_on_session_started (Some str) w = Inr w'
           \<and> heap w' p = Some s'
           \<and> state s' = SDL_WEBXR_STATE_RUNNING \<and> initialized s' = True
           \<and> length (refSpaceTypeString s') = 32
           \<and> refSpaceTypeString s' ! min (length str) 31 = NUL
           \<and> take (min (length str) 31) (refSpaceTypeString s') = take 31 str
           \<and> (NUL \<notin> set str \<longrightarrow> c_string (refSpaceTypeString s') = take 31 str)
           \<and> (\<exists>w''. SDL_WebXR_GetSessionState env (Some p) w' =
                       Inr (SessionState_of_int (sdl_webxr_get_session_state env), w''))
           \<and> (SessionState_of_int (sdl_webxr_get_session_state env) = SDL_WEBXR_STATE_RUNNING)
               = (sdl_webxr_get_session_state env = SDL_WEBXR_STATE_RUNNING)"
  using assms strlcpy_32 [OF assms(3), of str]
  by (simp add: webxr_on_session_started_def Let_def SDL_WebXR_GetSessionState_def
      SessionState_of_int_eq)

text \<open>
  The start is confirmed with "local-floor", and the environment reports RUNNING at the
  next state query. A start confirmed with a string of 38 bytes stores its first 31.
\<close>

theorem session_started_callback_witness:
  "g_session example_world = Some 4096 \<and> heap example_world 4096 \<noteq> None
   \<and> NUL \<notin> set ''local-floor''
   \<and> (\<exists>w' s'. webxr_on_session_started (Some ''local-floor'') example_world = Inr w'
           \<and> heap w' 4096 = Some s'
           \<and> state s' = SDL_WEBXR_STATE_RUNNING \<and> initialized s' = True
           \<and> length (refSpaceTypeString s') = 32
           \<and> c_string (refSpaceTypeString s') = ''local-floor''
           \<and> (\<exists>w''. SDL_WebXR_GetSessionState example_env (Some 4096) w' =
                       Inr (SDL_WEBXR_STATE_RUNNING, w'')))
   \<and> length ''an-unusually-long-reference-space-name'' = 38
   \<and> (\<exists>w' s'. webxr_on_session_started
                  (Some ''an-unusually-long-reference-space-name'') example_world = Inr w'
           \<and> heap w' 4096 = Some s'
           \<and> length (refSpaceTypeString s') = 32
           \<and> c_string (refSpaceTypeString s') = ''an-unusually-long-reference-spa'')"
proof -
  have len: "length (refSpaceTypeString \<lparr>mode = 1, refSpaceType = 2, state = 1,
         refSpaceTypeString = replicate 32 NUL, initialized = False\<rparr>) = 32"
    by simp
  have short: "\<exists>w' s'. webxr_on_session_started (Some ''local-floor'') example_world = Inr w'
           \<and> heap w' 4096 = Some s'
           \<and> state s' = SDL_WEBXR_STATE_RUNNING \<and> initialized s' = True
           \<and> length (refSpaceTypeString s') = 32
           \<and> c_string (refSpaceTypeString s') = ''local-floor''
           \<and> (\<exists>w''. SDL_WebXR_GetSessionState example_env (Some 4096) w' =
                       Inr (SDL_WEBXR_STATE_RUNNING, w''))"
    using session_started_callback [OF example_world_slot example_world_live len,
        of "''local-floor''" example_env]
    by (simp add: example_env_def SessionState_of_int_def) blast
  have long: "\<exists>w' s'. webxr_on_session_started
                  (Some ''an-unusually-long-reference-space-name'') example_world = Inr w'
           \<and> heap w' 4096 = Some s'
           \<and> length (refSpaceTypeString s') = 32
           \<and> c_string (refSpaceTypeString s') = ''an-unusually-long-reference-spa''"
    using session_started_callback [OF example_world_slot example_world_live len,
        of "''an-unusually-long-reference-space-name''" example_env]
    by simp blast
  from short long show ?thesis
    by (simp add: example_world_slot example_world_live)
qed

text \<open>
  C8 as stated fails on the state query: after the success callback with "local-floor",
  with the environment reporting VISIBLE, \<open>SDL_WebXR_GetSessionState\<close> returns VISIBLE,
  not RUNNING.
\<close>

theorem get_state_after_started_counterexample:
  "webxr_on_session_started (Some ''local-floor'') example_world = Inr started_world
   \<and> map_sum id fst (SDL_WebXR_GetSessionState
        (example_env\<lparr>sdl_webxr_get_session_state := SDL_WEBXR_STATE_VISIBLE\<rparr>)
        (Some 4096) started_world) = Inr SDL_WEBXR_STATE_VISIBLE
   \<and> SDL_WEBXR_STATE_VISIBLE \<noteq> SDL_WEBXR_STATE_RUNNING"
  by (simp add: started_world_def example_world_eq webxr_on_session_started_def Let_def
      SDL_WebXR_GetSessionState_def SessionState_of_int_def)

section \<open>Mode-support cache\<close>

text \<open>
  C9, as the code has it. Let the cache hold a non-negative answer for a mode in range,
  and let the process go on with any run of events that returns and in which the
  environment delivers no negative answer for that mode. Then no probe for that mode is
  sent during the run, whatever is called; the cache holds the answer delivered last
  for that mode, which is the one it held while no further answer arrives; and a call
  to \<open>SDL_WebXR_IsSessionModeSupported\<close> for that mode then changes nothing and returns
  that answer when the environment reports XR support, false when it does not. Before
  any answer, with XR support reported, the call sends the probe and returns the
  placeholder: true for immersive VR, false for the other modes. The probe callback
  stores the environment's answer in the cache.
\<close>

theorem mode_cache_latch:
  assumes "0 \<le> md" and "md < 3" and "length (g_mode_supported w) = 3"
    and "g_mode_supported w ! nat md = answer" and "0 \<le> answer"
    and "\<forall>a \<in> set (probe_answers md es). 0 \<le> a"
    and "run es w = Inr w'"
  shows "probes_sent md w' = probes_sent md w
     \<and> g_mode_supported w' ! nat md = last (answer # probe_answers md es)
     \<and> SDL_WebXR_IsSessionModeSupported env md w' =
         (SDL_WebXR_IsAvailable env \<and> last (answer # probe_answers md es) \<noteq> 0, w')
     \<and> (g_mode_supported w0 ! nat md < 0 \<and> SDL_WebXR_IsAvailable env \<longrightarrow>
          SDL_WebXR_IsSessionModeSupported env md w0 =
            (md = SDL_WEBXR_SESSION_IMMERSIVE_VR,
             w0\<lparr>env_calls := env_calls w0 @ [Call_is_session_supported md]\<rparr>))
     \<and> (length (g_mode_supported w0) = 3 \<longrightarrow>
          g_mode_supported (mode_supported_callback md supported w0) ! nat md = supported)"
proof -
  have n: "0 \<le> g_mode_supported w ! nat md" using assms(4,5) by simp
  from run_latch [OF assms(1,2,7,3) n assms(6)] assms(4)
  have p: "probes_sent md w' = probes_sent md w"
    and c: "g_mode_supported w' ! nat md = last (answer # probe_answers md es)"
    by simp_all
  have nn: "0 \<le> last (answer # probe_answers md es)"
    using assms(5,6) by (cases "probe_answers md es = []") auto
  have q: "SDL_WebXR_IsSessionModeSupported env md w' =
         (SDL_WebXR_IsAvailable env \<and> last (answer # probe_answers md es) \<noteq> 0, w')"
    using assms(1,2) c nn by (auto simp add: SDL_WebXR_IsSessionModeSupported_def)
  have first: "SDL_WebXR_IsSessionModeSupported env md w0 =
            (md = SDL_WEBXR_SESSION_IMMERSIVE_VR,
             w0\<lparr>env_calls := env_calls w0 @ [Call_is_session_supported md]\<rparr>)"
    if "g_mode_supported w0 ! nat md < 0" and "SDL_WebXR_IsAvailable env"
    using that by (simp add: SDL_WebXR_IsSessionModeSupported_def)
  have store: "g_mode_supported (mode_supported_callback md supported w0) ! nat md = supported"
    if "length (g_mode_supported w0) = 3"
    using that assms(1,2) by (simp add: mode_supported_callback_def)
  from p c q first store show ?thesis by simp
qed

text \<open>
  Two probes for immersive VR are out and the first answer, "supported", is cached.
  Through the later stretch of the process, second answer included, no third probe is
  sent, and the query answers true.
\<close>

theorem mode_cache_latch_witness:
  "(0::int) \<le> 1 \<and> (1::int) < 3
   \<and> length (g_mode_supported two_probes_world) = 3
   \<and> g_mode_supported two_probes_world ! nat 1 = 1
   \<and> probe_answers 1 example_lifetime = [1]
   \<and> g_mode_supported initial_world ! nat 1 < 0 \<and> SDL_WebXR_IsAvailable example_env
   \<and> length (g_mode_supported initial_world) = 3
   \<and> (\<exists>w'. run example_lifetime two_probes_world = Inr w'
         \<and> probes_sent 1 w' = probes_sent 1 two_probes_world
         \<and> g_mode_supported w' ! nat 1 = 1
         \<and> SDL_WebXR_IsSessionModeSupported example_env SDL_WEBXR_SESSION_IMMERSIVE_VR w'
             = (True, w'))
   \<and> SDL_WebXR_IsSessionModeSupported example_env SDL_WEBXR_SESSION_IMMERSIVE_VR initial_world
       = (True, initial_world\<lparr>env_calls := [Call_is_session_supported 1]\<rparr>)
   \<and> g_mode_supported (mode_supported_callback 1 1 initial_world) ! nat 1 = 1"
proof -
  have a: "(0::int) \<le> 1" "(1::int) < 3" by simp_all
  have l: "length (g_mode_supported two_probes_world) = 3" by (simp add: two_probes_world_eq)
  have c: "g_mode_supported two_probes_world ! nat 1 = 1" by (simp add: two_probes_world_eq)
  have ans: "probe_answers 1 example_lifetime = [1]" by (simp add: example_lifetime_def)
  then have g: "\<forall>a \<in> set (probe_answers 1 example_lifetime). 0 \<le> a" by simp
  have av: "SDL_WebXR_IsAvailable example_env"
    by (simp add: SDL_WebXR_IsAvailable_def example_env_def)
  have u: "g_mode_supported initial_world ! nat 1 < 0" by (simp add: initial_world_def)
  have l0: "length (g_mode_supported initial_world) = 3" by (simp add: initial_world_def)
  note t = mode_cache_latch [OF a l c a(1) g example_lifetime_run,
      where env = example_env and ?w0.0 = initial_world and supported = 1]
  from t ans av have r: "\<exists>w'. run example_lifetime two_probes_world = Inr w'
         \<and> probes_sent 1 w' = probes_sent 1 two_probes_world
         \<and> g_mode_supported w' ! nat 1 = 1
         \<and> SDL_WebXR_IsSessionModeSupported example_env 1 w' = (True, w')"
    using example_lifetime_run by simp
  from t u av have f: "SDL_WebXR_IsSessionModeSupported example_env 1 initial_world
       = (True, initial_world\<lparr>env_calls := [Call_is_session_supported 1]\<rparr>)"
    by (simp add: initial_world_def)
  from t l0 have st: "g_mode_supported (mode_supported_callback 1 1 initial_world) ! nat 1 = 1"
    by simp
  from a l c ans u av l0 r f st show ?thesis by blast
qed

text \<open>
  C9 as stated fails in three ways. With "supported" cached and the environment
  reporting no XR support at the later call, the call returns false. With the answer
  \<open>-1\<close> cached, the next call sends a second probe. With two probes sent before the
  first answer, the second answer can replace the cached one: the call returns true
  after the first answer and false after the second.
\<close>

theorem mode_cache_unavailable_counterexample:
  "run [Ev_IsSessionModeSupported example_env SDL_WEBXR_SESSION_IMMERSIVE_VR,
        Ev_mode_supported 1 1] initial_world = Inr probed_world
   \<and> probes_sent 1 probed_world = 1
   \<and> g_mode_supported probed_world ! 1 = 1
   \<and> fst (SDL_WebXR_IsSessionModeSupported (example_env\<lparr>sdl_webxr_is_supported := 0\<rparr>)
        SDL_WEBXR_SESSION_IMMERSIVE_VR probed_world) = False
   \<and> run [Ev_IsSessionModeSupported example_env SDL_WEBXR_SESSION_IMMERSIVE_VR,
          Ev_mode_supported 1 (- 1)] initial_world = Inr unknown_answer_world
   \<and> probes_sent 1 unknown_answer_world = 1
   \<and> probes_sent 1 (snd (SDL_WebXR_IsSessionModeSupported example_env
        SDL_WEBXR_SESSION_IMMERSIVE_VR unknown_answer_world)) = 2
   \<and> run [Ev_IsSessionModeSupported example_env SDL_WEBXR_SESSION_IMMERSIVE_VR,
          Ev_IsSessionModeSupported example_env SDL_WEBXR_SESSION_IMMERSIVE_VR,
          Ev_mode_supported 1 1] initial_world = Inr two_probes_world
   \<and> probes_sent 1 two_probes_world = 2
   \<and> fst (SDL_WebXR_IsSessionModeSupported example_env SDL_WEBXR_SESSION_IMMERSIVE_VR
        two_probes_world) = True
   \<and> fst (SDL_WebXR_IsSessionModeSupported example_env SDL_WEBXR_SESSION_IMMERSIVE_VR
        (mode_supported_callback 1 0 two_probes_world)) = False"
  by (simp add: probed_world_def unknown_answer_world_def two_probes_world_def
      SDL_WebXR_IsSessionModeSupported_def mode_supported_callback_def probes_sent_def
      initial_world_def SDL_WebXR_IsAvailable_def example_env_def)

section \<open>Beginning a frame\<close>

text \<open>
  C2. A call to \<open>SDL_WebXR_BeginFrame\<close> with a null session, with a null frame pointer,
  or on a live session whose freshly synchronized state (the environment's answer) is
  none of RUNNING, VISIBLE, VISIBLE\_BLURRED returns false and hands the frame back as
  it was given: nothing is written to it, its view count included.
\<close>

theorem begin_frame_rejects:
  assumes "session = None \<or> frame = None
     \<or> (\<exists>p s. session = Some p \<and> heap w p = Some s
          \<and> sdl_webxr_get_session_state env \<noteq> SDL_WEBXR_STATE_RUNNING
          \<and> sdl_webxr_get_session_state env \<noteq> SDL_WEBXR_STATE_VISIBLE
          \<and> sdl_webxr_get_session_state env \<noteq> SDL_WEBXR_STATE_VISIBLE_BLURRED)"
  shows "\<exists>w'. SDL_WebXR_BeginFrame env session frame w = Inr (False, frame, w')"
proof (cases session)
  case None
  then show ?thesis by (simp add: SDL_WebXR_BeginFrame_def)
next
  case (Some p)
  show ?thesis
  proof (cases frame)
    case None
    with Some show ?thesis by (simp add: SDL_WebXR_BeginFrame_def)
  next
    case (Some f)
    with \<open>session = Some p\<close> assms obtain s where
      "heap w p = Some s"
      "sdl_webxr_get_session_state env \<noteq> 3"
      "sdl_webxr_get_session_state env \<noteq> 4"
      "sdl_webxr_get_session_state env \<noteq> 5"
      by auto
    with Some \<open>session = Some p\<close> show ?thesis
      by (simp add: begin_frame_bad_state)
  qed
qed

text \<open>A frame is asked for while the session is still REQUESTING.\<close>

theorem begin_frame_rejects_witness:
  "(\<exists>p s. Some (4096::nat) = Some p \<and> heap example_world p = Some s
       \<and> sdl_webxr_get_session_state
            (example_env\<lparr>sdl_webxr_get_session_state := SDL_WEBXR_STATE_REQUESTING\<rparr>) \<noteq> 3
       \<and> sdl_webxr_get_session_state
            (example_env\<lparr>sdl_webxr_get_session_state := SDL_WEBXR_STATE_REQUESTING\<rparr>) \<noteq> 4
       \<and> sdl_webxr_get_session_state
            (example_env\<lparr>sdl_webxr_get_session_state := SDL_WEBXR_STATE_REQUESTING\<rparr>) \<noteq> 5)
   \<and> (\<exists>w'. SDL_WebXR_BeginFrame
          (example_env\<lparr>sdl_webxr_get_session_state := SDL_WEBXR_STATE_REQUESTING\<rparr>)
          (Some 4096) (Some example_frame) example_world = Inr (False, Some example_frame, w'))"
proof -
  let ?env = "example_env\<lparr>sdl_webxr_get_session_state := SDL_WEBXR_STATE_REQUESTING\<rparr>"
  have h: "\<exists>p s. Some (4096::nat) = Some p \<and> heap example_world p = Some s
       \<and> sdl_webxr_get_session_state ?env \<noteq> 3
       \<and> sdl_webxr_get_session_state ?env \<noteq> 4
       \<and> sdl_webxr_get_session_state ?env \<noteq> 5"
    by (simp add: example_world_live)
  then have "Some (4096::nat) = None \<or> Some example_frame = None
     \<or> (\<exists>p s. Some (4096::nat) = Some p \<and> heap example_world p = Some s
       \<and> sdl_webxr_get_session_state ?env \<noteq> 3
       \<and> sdl_webxr_get_session_state ?env \<noteq> 4
       \<and> sdl_webxr_get_session_state ?env \<noteq> 5)"
    by blast
  from begin_frame_rejects [OF this] h show ?thesis by blast
qed

text \<open>
  C5. A call to \<open>SDL_WebXR_BeginFrame\<close> on a live session in a valid state, with the
  environment reporting more than two views, returns true with a view count of exactly
  2: the frame is the given one with the count set to 2, views 0 and 1 fetched and no
  other, and the display time zeroed.
\<close>

theorem begin_frame_clamps:
  assumes "heap w p = Some s"
    and "sdl_webxr_get_session_state env = SDL_WEBXR_STATE_RUNNING
     \<or> sdl_webxr_get_session_state env = SDL_WEBXR_STATE_VISIBLE
     \<or> sdl_webxr_get_session_state env = SDL_WEBXR_STATE_VISIBLE_BLURRED"
    and "sdl_webxr_get_view_count env > 2"
  shows "\<exists>f' w'. SDL_WebXR_BeginFrame env (Some p) (Some f) w = Inr (True, Some f', w')
           \<and> viewCount f' = 2
           \<and> f' = (fetch_view env 1 (fetch_view env 0 (f\<lparr>viewCount := 2\<rparr>)))
                    \<lparr>predictedDisplayTime := 0\<rparr>"
  using assms(3)
  by (simp add: begin_frame_live [OF assms(1,2)] Let_def view_loop_two viewCount_fetch_view)

text \<open>The environment reports three views.\<close>

theorem begin_frame_clamps_witness:
  "heap example_world 4096 \<noteq> None
   \<and> sdl_webxr_get_session_state (example_env\<lparr>sdl_webxr_get_view_count := 3\<rparr>)
        = SDL_WEBXR_STATE_RUNNING
   \<and> sdl_webxr_get_view_count (example_env\<lparr>sdl_webxr_get_view_count := 3\<rparr>) > 2
   \<and> (\<exists>f' w'. SDL_WebXR_BeginFrame (example_env\<lparr>sdl_webxr_get_view_count := 3\<rparr>)
          (Some 4096) (Some example_frame) example_world = Inr (True, Some f', w')
        \<and> viewCount f' = 2)"
proof -
  let ?env = "example_env\<lparr>sdl_webxr_get_view_count := 3\<rparr>"
  have st: "sdl_webxr_get_session_state ?env = SDL_WEBXR_STATE_RUNNING
     \<or> sdl_webxr_get_session_state ?env = SDL_WEBXR_STATE_VISIBLE
     \<or> sdl_webxr_get_session_state ?env = SDL_WEBXR_STATE_VISIBLE_BLURRED"
    by (simp add: example_env_def)
  have n: "sdl_webxr_get_view_count ?env > 2" by simp
  show ?thesis
    using begin_frame_clamps [OF example_world_live st n, of example_frame] st n
    by (auto simp add: example_world_live example_env_def)
qed

text \<open>
  C6. A call to \<open>SDL_WebXR_BeginFrame\<close> on a live session in a valid state, with a
  positive reported view count, returns true, and every view below the clamped count
  holds, field by field, the outcome of its own three fetches: the projection matrix
  is the fetched one, or sixteen zeros when that fetch failed; likewise the view
  matrix; the viewport is the fetched rectangle, or four zeros when that fetch failed.
  No fetch decides another field or another view. With one view reported, the second
  slot of the frame keeps what it held.
\<close>

theorem begin_frame_per_field:
  assumes "heap w p = Some s"
    and "sdl_webxr_get_session_state env = SDL_WEBXR_STATE_RUNNING
     \<or> sdl_webxr_get_session_state env = SDL_WEBXR_STATE_VISIBLE
     \<or> sdl_webxr_get_session_state env = SDL_WEBXR_STATE_VISIBLE_BLURRED"
    and "0 < sdl_webxr_get_view_count env"
    and "length (views f) = 2"
    and "0 \<le> i" and "i < min (sdl_webxr_get_view_count env) 2"
  shows "\<exists>f' w'. SDL_WebXR_BeginFrame env (Some p) (Some f) w = Inr (True, Some f', w')
     \<and> viewCount f' = min (sdl_webxr_get_view_count env) 2
     \<and> views f' ! nat i =
         (let v = views f ! nat i;
              pr = sdl_webxr_get_projection_for_view env i (projectionMatrix v);
              tr = sdl_webxr_get_transform_for_view env i (viewMatrix v);
              vp = sdl_webxr_get_viewport_for_view env i
          in \<lparr>projectionMatrix = (if fst pr = 0 then replicate 16 0 else snd pr),
              viewMatrix = (if fst tr = 0 then replicate 16 0 else snd tr),
              viewportX = (if fst vp \<noteq> 0 then fst (snd vp) else 0),
              viewportY = (if fst vp \<noteq> 0 then fst (snd (snd vp)) else 0),
              viewportWidth = (if fst vp \<noteq> 0 then fst (snd (snd (snd vp))) else 0),
              viewportHeight = (if fst vp \<noteq> 0 then snd (snd (snd (snd vp))) else 0)\<rparr>)
     \<and> (sdl_webxr_get_view_count env = 1 \<longrightarrow> views f' ! 1 = views f ! 1)"
proof -
  let ?n = "sdl_webxr_get_view_count env"
  let ?f0 = "f\<lparr>viewCount := min ?n 2\<rparr>"
  let ?g = "view_loop env 0 ?f0"
  have bf: "SDL_WebXR_BeginFrame env (Some p) (Some f) w =
      Inr (True, Some (?g\<lparr>predictedDisplayTime := 0\<rparr>),
           w\<lparr>heap := (heap w)(p \<mapsto> s\<lparr>state := sdl_webxr_get_session_state env\<rparr>)\<rparr>)"
    using assms(3) by (simp add: begin_frame_live [OF assms(1,2)] Let_def)
  have vc: "viewCount ?g = min ?n 2" by (simp add: viewCount_view_loop)
  have len: "length (views ?f0) = 2" using assms(4) by simp
  have nth: "views ?g ! nat i =
         (let v = views f ! nat i;
              pr = sdl_webxr_get_projection_for_view env i (projectionMatrix v);
              tr = sdl_webxr_get_transform_for_view env i (viewMatrix v);
              vp = sdl_webxr_get_viewport_for_view env i
          in \<lparr>projectionMatrix = (if fst pr = 0 then replicate 16 0 else snd pr),
              viewMatrix = (if fst tr = 0 then replicate 16 0 else snd tr),
              viewportX = (if fst vp \<noteq> 0 then fst (snd vp) else 0),
              viewportY = (if fst vp \<noteq> 0 then fst (snd (snd vp)) else 0),
              viewportWidth = (if fst vp \<noteq> 0 then fst (snd (snd (snd vp))) else 0),
              viewportHeight = (if fst vp \<noteq> 0 then snd (snd (snd (snd vp))) else 0)\<rparr>)"
  proof (cases "?n = 1")
    case True
    with assms(5,6) have i0: "i = 0" by simp
    from True have "?g = fetch_view env 0 ?f0" by (simp add: view_loop_one)
    with i0 len show ?thesis using fetch_view_nth_same [of 0 ?f0 env] by simp
  next
    case False
    with assms(3) have two: "min ?n 2 = 2" by simp
    then have g: "?g = fetch_view env 1 (fetch_view env 0 ?f0)"
      by (simp add: view_loop_two)
    from assms(5,6) two have "i = 0 \<or> i = 1" by auto
    then show ?thesis
    proof
      assume i0: "i = 0"
      have "views ?g ! nat 0 = views (fetch_view env 0 ?f0) ! nat 0"
        unfolding g by (rule fetch_view_nth_other) simp
      with i0 len show ?thesis using fetch_view_nth_same [of 0 ?f0 env] by simp
    next
      assume i1: "i = 1"
      have l1: "nat 1 < length (views (fetch_view env 0 ?f0))"
        using len by (simp add: length_fetch_view)
      have o: "views (fetch_view env 0 ?f0) ! nat 1 = views ?f0 ! nat 1"
        by (rule fetch_view_nth_other) simp
      show ?thesis unfolding g i1
        using fetch_view_nth_same [OF l1, of env] o by simp
    qed
  qed
  have keep: "?n = 1 \<longrightarrow> views ?g ! 1 = views f ! 1"
  proof
    assume one: "?n = 1"
    then have "?g = fetch_view env 0 ?f0" by (simp add: view_loop_one)
    then show "views ?g ! 1 = views f ! 1"
      using fetch_view_nth_other [of 1 0 env ?f0] by simp
  qed
  show ?thesis using bf vc nth keep by simp
qed

text \<open>
  Stereo, with the projection fetch succeeding for view 0 and failing for view 1: the
  call returns true, view 0 has the fetched projection matrix, view 1 has sixteen
  zeros there and still its fetched view matrix and viewport.
\<close>

theorem begin_frame_per_field_witness:
  "heap example_world 4096 \<noteq> None
   \<and> sdl_webxr_get_session_state example_env = SDL_WEBXR_STATE_RUNNING
   \<and> 0 < sdl_webxr_get_view_count example_env
   \<and> length (views example_frame) = 2
   \<and> fst (sdl_webxr_get_projection_for_view example_env 0
             (projectionMatrix (views example_frame ! 0))) \<noteq> 0
   \<and> fst (sdl_webxr_get_projection_for_view example_env 1
             (projectionMatrix (views example_frame ! 1))) = 0
   \<and> (\<exists>f' w'. SDL_WebXR_BeginFrame example_env (Some 4096) (Some example_frame) example_world
                  = Inr (True, Some f', w')
        \<and> viewCount f' = 2
        \<and> projectionMatrix (views f' ! 0) = replicate 16 7
        \<and> projectionMatrix (views f' ! 1) = replicate 16 0
        \<and> viewMatrix (views f' ! 1) = replicate 16 5
        \<and> viewportX (views f' ! 1) = 960 \<and> viewportWidth (views f' ! 1) = 960)"
proof -
  have st: "sdl_webxr_get_session_state example_env = SDL_WEBXR_STATE_RUNNING
     \<or> sdl_webxr_get_session_state example_env = SDL_WEBXR_STATE_VISIBLE
     \<or> sdl_webxr_get_session_state example_env = SDL_WEBXR_STATE_VISIBLE_BLURRED"
    by (simp add: example_env_def)
  have n: "0 < sdl_webxr_get_view_count example_env" by (simp add: example_env_def)
  have len: "length (views example_frame) = 2" by (simp add: example_frame_def)
  have i0: "(0::int) \<le> 0" "(0::int) < min (sdl_webxr_get_view_count example_env) 2"
    by (simp_all add: example_env_def)
  have i1: "(0::int) \<le> 1" "(1::int) < min (sdl_webxr_get_view_count example_env) 2"
    by (simp_all add: example_env_def)
  from begin_frame_per_field [OF example_world_live st n len i0]
  obtain f0 w0 where
    b0: "SDL_WebXR_BeginFrame example_env (Some 4096) (Some example_frame) example_world
           = Inr (True, Some f0, w0)"
    and v0: "projectionMatrix (views f0 ! 0) = replicate 16 7"
    by (auto simp add: example_env_def example_frame_def Let_def)
  from begin_frame_per_field [OF example_world_live st n len i1]
  obtain f1 w1 where
    b1: "SDL_WebXR_BeginFrame example_env (Some 4096) (Some example_frame) example_world
           = Inr (True, Some f1, w1)"
    and c1: "viewCount f1 = 2"
    and v1: "projectionMatrix (views f1 ! 1) = replicate 16 0"
            "viewMatrix (views f1 ! 1) = replicate 16 5"
            "viewportX (views f1 ! 1) = 960" "viewportWidth (views f1 ! 1) = 960"
    by (auto simp add: example_env_def example_frame_def Let_def)
  from b0 b1 have "f0 = f1" by simp
  with b1 c1 v0 v1 show ?thesis
    by (simp add: example_world_live example_env_def example_frame_def)
qed

text \<open>
  C10. A call to \<open>SDL_WebXR_BeginFrame\<close> on a live session in a valid state, with the
  environment reporting a view count of zero or less, returns false and hands back the
  frame with that reported count stored in \<open>viewCount\<close> (and nothing else changed). The
  other failure paths differ: with a null session, a null frame pointer, or a state
  that is none of RUNNING, VISIBLE, VISIBLE\_BLURRED, the frame comes back as given.
\<close>

theorem begin_frame_no_views:
  assumes "heap w p = Some s"
    and "sdl_webxr_get_session_state env = SDL_WEBXR_STATE_RUNNING
     \<or> sdl_webxr_get_session_state env = SDL_WEBXR_STATE_VISIBLE
     \<or> sdl_webxr_get_session_state env = SDL_WEBXR_STATE_VISIBLE_BLURRED"
    and "sdl_webxr_get_view_count env \<le> 0"
  shows "(\<exists>w'. SDL_WebXR_BeginFrame env (Some p) (Some f) w =
           Inr (False, Some (f\<lparr>viewCount := sdl_webxr_get_view_count env\<rparr>), w'))
     \<and> SDL_WebXR_BeginFrame env None (Some f) w = Inr (False, Some f, w)
     \<and> SDL_WebXR_BeginFrame env (Some p) None w = Inr (False, None, w)
     \<and> (st \<noteq> SDL_WEBXR_STATE_RUNNING \<and> st \<noteq> SDL_WEBXR_STATE_VISIBLE
          \<and> st \<noteq> SDL_WEBXR_STATE_VISIBLE_BLURRED \<longrightarrow>
        (\<exists>w'. SDL_WebXR_BeginFrame (env\<lparr>sdl_webxr_get_session_state := st\<rparr>)
                 (Some p) (Some f) w = Inr (False, Some f, w')))"
proof -
  have a: "\<exists>w'. SDL_WebXR_BeginFrame env (Some p) (Some f) w =
           Inr (False, Some (f\<lparr>viewCount := sdl_webxr_get_view_count env\<rparr>), w')"
    using assms(3) by (simp add: begin_frame_live [OF assms(1,2)] Let_def)
  have b: "SDL_WebXR_BeginFrame env None (Some f) w = Inr (False, Some f, w)"
    by (simp add: SDL_WebXR_BeginFrame_def)
  have c: "SDL_WebXR_BeginFrame env (Some p) None w = Inr (False, None, w)"
    by (simp add: SDL_WebXR_BeginFrame_def)
  have d: "\<exists>w'. SDL_WebXR_BeginFrame (env\<lparr>sdl_webxr_get_session_state := st\<rparr>)
                 (Some p) (Some f) w = Inr (False, Some f, w')"
    if "st \<noteq> 3" and "st \<noteq> 4" and "st \<noteq> 5"
    using that by (simp add: begin_frame_bad_state [OF assms(1)])
  from a b c d show ?thesis by blast
qed

text \<open>
  The environment reports no view: a frame whose count was 2 comes back with count 0.
  With the session ENDED the same frame comes back with its count still 2.
\<close>

theorem begin_frame_no_views_witness:
  "heap example_world 4096 \<noteq> None
   \<and> sdl_webxr_get_session_state (example_env\<lparr>sdl_webxr_get_view_count := 0\<rparr>)
        = SDL_WEBXR_STATE_RUNNING
   \<and> sdl_webxr_get_view_count (example_env\<lparr>sdl_webxr_get_view_count := 0\<rparr>) \<le> 0
   \<and> (\<exists>w'. SDL_WebXR_BeginFrame (example_env\<lparr>sdl_webxr_get_view_count := 0\<rparr>)
          (Some 4096) (Some (example_frame\<lparr>viewCount := 2\<rparr>)) example_world
        = Inr (False, Some (example_frame\<lparr>viewCount := 0\<rparr>), w'))
   \<and> (\<exists>w'. SDL_WebXR_BeginFrame
          (example_env\<lparr>sdl_webxr_get_view_count := 0,
             sdl_webxr_get_session_state := SDL_WEBXR_STATE_ENDED\<rparr>)
          (Some 4096) (Some (example_frame\<lparr>viewCount := 2\<rparr>)) example_world
        = Inr (False, Some (example_frame\<lparr>viewCount := 2\<rparr>), w'))"
proof -
  let ?env = "example_env\<lparr>sdl_webxr_get_view_count := 0\<rparr>"
  have st: "sdl_webxr_get_session_state ?env = SDL_WEBXR_STATE_RUNNING
     \<or> sdl_webxr_get_session_state ?env = SDL_WEBXR_STATE_VISIBLE
     \<or> sdl_webxr_get_session_state ?env = SDL_WEBXR_STATE_VISIBLE_BLURRED"
    by (simp add: example_env_def)
  have n: "sdl_webxr_get_view_count ?env \<le> 0" by simp
  show ?thesis
    using begin_frame_no_views [OF example_world_live st n,
        of "example_frame\<lparr>viewCount := 2\<rparr>" SDL_WEBXR_STATE_ENDED]
    by (simp add: example_world_live example_env_def)
qed

end
